theory Spec2Isabelle
  imports Main "HOL-Library.Multiset" "HOL-Library.Option_ord" "HOL-Library.Sublist"
begin

section \<open>Strings and regular expressions\<close>

text \<open>
  A Python \<open>str\<close> is a list of characters, each a code point below 256.
  \<open>sub in text\<close> is \<^const>\<open>sublist\<close>, \<open>text.startswith(p)\<close> is \<^const>\<open>prefix\<close>.
  \<open>isspace\<close> is the whitespace that \<open>str.strip\<close> removes and that \<open>\s\<close> matches.
\<close>

definition isspace :: "char \<Rightarrow> bool" where
  "isspace c =
     (let n = (of_char c :: nat)
      in (9 \<le> n \<and> n \<le> 13) \<or> (28 \<le> n \<and> n \<le> 32) \<or> n = 133 \<or> n = 160)"

definition isdigit :: "char \<Rightarrow> bool" where
  "isdigit c = (let n = (of_char c :: nat) in 48 \<le> n \<and> n \<le> 57)"

definition strip :: "string \<Rightarrow> string" where
  "strip s = rev (dropWhile isspace (rev (dropWhile isspace s)))"

text \<open>
  \<open>s.replace(old, new)\<close> for a non-empty \<open>old\<close>, the only way the program calls it:
  the occurrences are replaced from the left, without overlap.
\<close>

function replace :: "string \<Rightarrow> string \<Rightarrow> string \<Rightarrow> string" where
  "replace old new [] = []"
| "replace old new (c # cs) =
     (if old \<noteq> [] \<and> prefix old (c # cs)
      then new @ replace old new (drop (length old) (c # cs))
      else c # replace old new cs)"
  by pat_completeness auto
termination
  by (relation "measure (\<lambda>(old, new, s). length s)") auto

text \<open>\<open>str.split()\<close>: the maximal runs of non-whitespace characters.\<close>

fun split_acc :: "string \<Rightarrow> string \<Rightarrow> string list" where
  "split_acc cur [] = (if cur = [] then [] else [rev cur])"
| "split_acc cur (c # cs) =
     (if isspace c then (if cur = [] then split_acc [] cs else rev cur # split_acc [] cs)
      else split_acc (c # cur) cs)"

definition split :: "string \<Rightarrow> string list" where
  "split s = split_acc [] s"

text \<open>
  The regular expressions of the program use literals, the classes \<open>\s\<close>,
  \<open>[0-9,.]\<close> and \<open>[\d,]\<close> under \<open>*\<close> and \<open>+\<close>, groups around a \<open>+\<close>, and one optional
  character. \<open>re_match\<close> is the backtracking matcher of Python's \<open>re\<close> on that
  fragment: a repetition is greedy, it tries the longest run first and gives characters
  back one at a time; the result is the list of the groups. \<open>re_search\<close> is
  \<open>re.search\<close>: the match at the leftmost position that has one.
\<close>

datatype char_class = Space | Amount | Count

fun in_class :: "char_class \<Rightarrow> char \<Rightarrow> bool" where
  "in_class Space c = isspace c"
| "in_class Amount c = (isdigit c \<or> c = CHR '','' \<or> c = CHR ''.'')"
| "in_class Count c = (isdigit c \<or> c = CHR '','')"

datatype re_item = Lit string | Star char_class | Plus char_class | Group_Plus char_class
  | Opt char

fun first_success :: "(nat \<Rightarrow> 'a option) \<Rightarrow> nat list \<Rightarrow> 'a option" where
  "first_success f [] = None"
| "first_success f (k # ks) = (case f k of Some r \<Rightarrow> Some r | None \<Rightarrow> first_success f ks)"

definition run_length :: "char_class \<Rightarrow> string \<Rightarrow> nat" where
  "run_length cls s = length (takeWhile (in_class cls) s)"

fun re_match :: "re_item list \<Rightarrow> string \<Rightarrow> string list option" where
  "re_match [] s = Some []"
| "re_match (Lit l # r) s =
     (if prefix l s then re_match r (drop (length l) s) else None)"
| "re_match (Star cls # r) s =
     first_success (\<lambda>k. re_match r (drop k s)) (rev [0 ..< Suc (run_length cls s)])"
| "re_match (Plus cls # r) s =
     first_success (\<lambda>k. re_match r (drop k s)) (rev [1 ..< Suc (run_length cls s)])"
| "re_match (Group_Plus cls # r) s =
     first_success (\<lambda>k. map_option ((#) (take k s)) (re_match r (drop k s)))
       (rev [1 ..< Suc (run_length cls s)])"
| "re_match (Opt c # r) s =
     (case (if prefix [c] s then re_match r (drop 1 s) else None) of
        Some g \<Rightarrow> Some g
      | None \<Rightarrow> re_match r s)"

fun re_search :: "re_item list \<Rightarrow> string \<Rightarrow> string list option" where
  "re_search p [] = re_match p []"
| "re_search p (c # cs) =
     (case re_match p (c # cs) of Some g \<Rightarrow> Some g | None \<Rightarrow> re_search p cs)"

text \<open>\<open>match.group(n)\<close> for \<open>n \<ge> 1\<close>.\<close>

definition group :: "string list \<Rightarrow> nat \<Rightarrow> string" where
  "group g n = g ! (n - 1)"

text \<open>\<open>r'Hourly:\s*\$([0-9,.]+)\s*-\s*\$([0-9,.]+)'\<close>\<close>

definition hourly_re :: "re_item list" where
  "hourly_re =
     [Lit ''Hourly:'', Star Space, Lit ''$'', Group_Plus Amount, Star Space, Lit ''-'',
      Star Space, Lit ''$'', Group_Plus Amount]"

text \<open>\<open>r'Est\. budget:\s*\$([0-9,.]+)'\<close>\<close>

definition budget_re :: "re_item list" where
  "budget_re = [Lit ''Est. budget:'', Star Space, Lit ''$'', Group_Plus Amount]"


type_synonym timestamp = nat

section \<open>The parsed document\<close>

text \<open>
  What \<open>BeautifulSoup(html, 'html.parser')\<close> returns: a tree of tags (name, attribute
  dictionary, contents) and text nodes. An element handed around by the program is a tag
  together with the names and attributes of its ancestors, nearest first, because a CSS
  selector with a descendant combinator looks at ancestors outside the element that
  \<open>select\<close> was called on. The \<open>BeautifulSoup\<close> object is the element named
  \<open>[document]\<close> with no ancestors.
\<close>

datatype node = Tag string "(string \<times> string) list" "node list" | NavigableString string

type_synonym tag_info = "string \<times> (string \<times> string) list"

datatype element =
  Element (el_parents: "tag_info list") (el_name: string)
    (el_attrs: "(string \<times> string) list") (el_contents: "node list")

fun elements_of :: "tag_info list \<Rightarrow> node \<Rightarrow> element list" where
  "elements_of ps (NavigableString s) = []"
| "elements_of ps (Tag n a cs) =
     Element ps n a cs # concat (map (elements_of ((n, a) # ps)) cs)"

text \<open>The tags below an element, in document order.\<close>

definition descendants :: "element \<Rightarrow> element list" where
  "descendants e =
     concat (map (elements_of ((el_name e, el_attrs e) # el_parents e)) (el_contents e))"

text \<open>\<open>tag.get(key, default)\<close>\<close>

definition get :: "element \<Rightarrow> string \<Rightarrow> string \<Rightarrow> string" where
  "get e key dflt = (case map_of (el_attrs e) key of None \<Rightarrow> dflt | Some v \<Rightarrow> v)"

text \<open>
  \<open>tag.get_text(strip=True)\<close>: the text nodes below the tag, each stripped, the empty
  ones dropped, joined without a separator.
\<close>

fun strings :: "node \<Rightarrow> string list" where
  "strings (NavigableString s) = [s]"
| "strings (Tag n a cs) = concat (map strings cs)"

definition get_text :: "element \<Rightarrow> string" where
  "get_text e =
     concat (filter (\<lambda>s. s \<noteq> []) (map strip (concat (map strings (el_contents e)))))"

text \<open>
  The selectors of the program: compound selectors made of a type selector \<open>h2\<close>, an
  attribute selector \<open>[k="v"]\<close> and a class selector \<open>.c\<close> (the class attribute, split
  at whitespace, contains \<open>c\<close>), joined by the descendant combinator.
\<close>

datatype simple_selector = Type string | Attr string string | Class string

type_synonym selector = "simple_selector list list"

fun matches_simple :: "tag_info \<Rightarrow> simple_selector \<Rightarrow> bool" where
  "matches_simple (n, a) (Type t) = (n = t)"
| "matches_simple (n, a) (Attr k v) = (map_of a k = Some v)"
| "matches_simple (n, a) (Class c) =
     (case map_of a ''class'' of None \<Rightarrow> False | Some v \<Rightarrow> c \<in> set (split v))"

definition matches_compound :: "tag_info \<Rightarrow> simple_selector list \<Rightarrow> bool" where
  "matches_compound t c = list_all (matches_simple t) c"

text \<open>
  The compounds left of the subject, innermost first, against the ancestors, nearest
  first: each compound takes the nearest ancestor that matches it.
\<close>

fun matches_ancestors :: "simple_selector list list \<Rightarrow> tag_info list \<Rightarrow> bool" where
  "matches_ancestors [] ps = True"
| "matches_ancestors (c # cs) [] = False"
| "matches_ancestors (c # cs) (p # ps) =
     (if matches_compound p c then matches_ancestors cs ps
      else matches_ancestors (c # cs) ps)"

definition matches :: "selector \<Rightarrow> element \<Rightarrow> bool" where
  "matches sel e =
     (case rev sel of
        [] \<Rightarrow> False
      | c # cs \<Rightarrow> matches_compound (el_name e, el_attrs e) c \<and> matches_ancestors cs (el_parents e))"

definition select :: "element \<Rightarrow> selector \<Rightarrow> element list" where
  "select e sel = filter (matches sel) (descendants e)"

definition select_one :: "element \<Rightarrow> selector \<Rightarrow> element option" where
  "select_one e sel = (case select e sel of [] \<Rightarrow> None | x # xs \<Rightarrow> Some x)"

section \<open>The job-listing parser (src/scripts/upwork\_data\_parser.py)\<close>

subsection \<open>The parsed job dictionary\<close>

text \<open>
  A dictionary with string keys is a record of optional fields: a key that is absent is
  \<open>None\<close>, so \<open>d.get('k')\<close> is the field itself.
\<close>

record job_info =
  ji_type :: "string option"
  ji_experience_level :: "string option"
  ji_budget :: "string option"
  ji_hourly_rate_min :: "string option"
  ji_hourly_rate_max :: "string option"
  ji_duration :: "string option"

record job_data =
  jd_job_uid :: "string option"
  jd_title :: "string option"
  jd_url :: "string option"
  jd_posted_time :: "string option"
  jd_job_info :: "job_info option"
  jd_description :: "string option"
  jd_skills :: "string list option"

definition empty_job_info :: job_info where
  "empty_job_info =
     \<lparr>ji_type = None, ji_experience_level = None, ji_budget = None,
      ji_hourly_rate_min = None, ji_hourly_rate_max = None, ji_duration = None\<rparr>"

definition empty_job_data :: job_data where
  "empty_job_data =
     \<lparr>jd_job_uid = None, jd_title = None, jd_url = None, jd_posted_time = None,
      jd_job_info = None, jd_description = None, jd_skills = None\<rparr>"

subsection \<open>parse_upwork_jobs\<close>

text \<open>The three selectors for job elements, in the order the program tries them.\<close>

definition sel_article_JobTile :: selector where
  "sel_article_JobTile = [[Type ''article'', Attr ''data-test'' ''JobTile'']]"

definition sel_section_job_tile :: selector where
  "sel_section_job_tile = [[Type ''section'', Attr ''data-qa'' ''job-tile'']]"

definition sel_any_job_tile :: selector where
  "sel_any_job_tile = [[Attr ''data-qa'' ''job-tile'']]"

definition job_elements :: "element \<Rightarrow> element list" where
  "job_elements soup =
     (let job_elements = select soup sel_article_JobTile;
          job_elements =
            (if job_elements = [] then select soup sel_section_job_tile else job_elements);
          job_elements =
            (if job_elements = [] then select soup sel_any_job_tile else job_elements)
      in job_elements)"

text \<open>The title link: five selectors, the first that selects a tag wins.\<close>

definition title_link :: "element \<Rightarrow> element option" where
  "title_link job_element =
     (let title_link =
            select_one job_element
              [[Type ''h2'', Class ''job-tile-title''],
               [Type ''a'', Attr ''data-test'' ''job-tile-title-link'']];
          title_link =
            (if title_link = None
             then select_one job_element [[Type ''h2''], [Type ''a'', Attr ''data-qa'' ''job-title'']]
             else title_link)
      in if title_link = None
         then (let title_link = select_one job_element [[Type ''h2''], [Type ''a'']]
               in if title_link = None
                  then (let title_link =
                              select_one job_element
                                [[Type ''a'', Attr ''data-test'' ''job-tile-title-link'']]
                        in if title_link = None
                           then select_one job_element [[Type ''a'', Attr ''data-qa'' ''job-title'']]
                           else title_link)
                  else title_link)
         else title_link)"

text \<open>One round of the loop over the job-info items, on the item's stripped text.\<close>

definition job_info_item :: "job_info \<Rightarrow> string \<Rightarrow> job_info" where
  "job_info_item job_info text =
     (if sublist ''Fixed price'' text then job_info\<lparr>ji_type := Some ''Fixed price''\<rparr>
      else if sublist ''Hourly:'' text then
        (let job_info = job_info\<lparr>ji_type := Some ''Hourly''\<rparr>
         in case re_search hourly_re text of
              None \<Rightarrow> job_info
            | Some rate_match \<Rightarrow>
                job_info\<lparr>ji_hourly_rate_min := Some (group rate_match 1),
                         ji_hourly_rate_max := Some (group rate_match 2)\<rparr>)
      else if sublist ''Est. budget:'' text then
        (case re_search budget_re text of
           None \<Rightarrow> job_info
         | Some budget_match \<Rightarrow> job_info\<lparr>ji_budget := Some (group budget_match 1)\<rparr>)
      else if sublist ''Entry Level'' text \<or> sublist ''Intermediate'' text \<or> sublist ''Expert'' text
      then
        (if sublist ''Entry Level'' text then job_info\<lparr>ji_experience_level := Some ''Entry Level''\<rparr>
         else if sublist ''Intermediate'' text
         then job_info\<lparr>ji_experience_level := Some ''Intermediate''\<rparr>
         else if sublist ''Expert'' text then job_info\<lparr>ji_experience_level := Some ''Expert''\<rparr>
         else job_info)
      else if sublist ''Est. time:'' text
      then job_info\<lparr>ji_duration := Some (strip (replace ''Est. time:'' [] text))\<rparr>
      else job_info)"

fun job_info_loop :: "job_info \<Rightarrow> element list \<Rightarrow> job_info" where
  "job_info_loop job_info [] = job_info"
| "job_info_loop job_info (item # items) =
     job_info_loop (job_info_item job_info (get_text item)) items"

fun skills_loop :: "string list \<Rightarrow> element list \<Rightarrow> string list" where
  "skills_loop skills [] = skills"
| "skills_loop skills (skill_elem # rest) =
     (let skill_text = get_text skill_elem
      in if skill_text \<noteq> [] \<and> skill_text \<notin> set [''+1'', ''+2'', ''+3'', ''+4'', ''+5'']
         then skills_loop (skills @ [skill_text]) rest
         else skills_loop skills rest)"

text \<open>The body of the loop over the job elements, up to the test on the title.\<close>

definition parse_job_element :: "element \<Rightarrow> job_data" where
  "parse_job_element job_element =
     (let job_data = empty_job_data;
          job_uid = get job_element ''data-ev-job-uid'' [];
          job_data = (if job_uid \<noteq> [] then job_data\<lparr>jd_job_uid := Some job_uid\<rparr> else job_data);
          job_data =
            (case title_link job_element of
               None \<Rightarrow> job_data
             | Some link \<Rightarrow>
                 (let href = get link ''href'' []
                  in job_data
                       \<lparr>jd_title := Some (get_text link),
                        jd_url :=
                          Some (if href \<noteq> [] \<and> \<not> prefix ''http'' href
                                then ''https://www.upwork.com'' @ href else href)\<rparr>));
          posted_time =
            select_one job_element [[Type ''small'', Attr ''data-test'' ''job-pubilshed-date'']];
          posted_time =
            (if posted_time = None then select_one job_element [[Type ''small'']] else posted_time);
          job_data =
            (case posted_time of
               None \<Rightarrow> job_data
             | Some posted_time \<Rightarrow> job_data\<lparr>jd_posted_time := Some (get_text posted_time)\<rparr>);
          job_info_items =
            select job_element [[Type ''ul'', Attr ''data-test'' ''JobInfo''], [Type ''li'']];
          job_info_items =
            (if job_info_items = [] then select job_element [[Type ''ul''], [Type ''li'']]
             else job_info_items);
          job_data = job_data\<lparr>jd_job_info := Some (job_info_loop empty_job_info job_info_items)\<rparr>;
          description_elem =
            select_one job_element
              [[Attr ''data-test'' ''UpCLineClamp JobDescription''], [Class ''air3-line-clamp''],
               [Type ''p'']];
          description_elem =
            (if description_elem = None
             then select_one job_element [[Class ''air3-line-clamp''], [Type ''p'']]
             else description_elem);
          description_elem =
            (if description_elem = None then select_one job_element [[Type ''p'']]
             else description_elem);
          job_data =
            (case description_elem of
               None \<Rightarrow> job_data
             | Some description_elem \<Rightarrow>
                 job_data\<lparr>jd_description := Some (get_text description_elem)\<rparr>);
          skill_elements =
            select job_element
              [[Attr ''data-test'' ''TokenClamp JobAttrs''], [Class ''air3-token''], [Type ''span'']];
          skill_elements =
            (if skill_elements = [] then select job_element [[Class ''air3-token''], [Type ''span'']]
             else skill_elements)
      in job_data\<lparr>jd_skills := Some (skills_loop [] skill_elements)\<rparr>)"

text \<open>
  The loop over the job elements: \<open>jobs.append(job_data)\<close> runs only when
  \<open>job_data.get('title')\<close> is truthy, that is present and not the empty string.
\<close>

definition truthy :: "string option \<Rightarrow> bool" where
  "truthy v = (case v of None \<Rightarrow> False | Some s \<Rightarrow> s \<noteq> [])"

fun jobs_loop :: "job_data list \<Rightarrow> element list \<Rightarrow> job_data list" where
  "jobs_loop jobs [] = jobs"
| "jobs_loop jobs (job_element # rest) =
     (let job_data = parse_job_element job_element
      in if truthy (jd_title job_data) then jobs_loop (jobs @ [job_data]) rest
         else jobs_loop jobs rest)"

definition parse_upwork_jobs :: "element \<Rightarrow> job_data list" where
  "parse_upwork_jobs soup = jobs_loop [] (job_elements soup)"

subsection \<open>extract_metadata and parse_html_file\<close>

text \<open>
  An exception is a value: its class and \<open>str(e)\<close>. What the program reads from
  outside is an argument: \<open>open_read\<close> is \<open>open(path, 'r', encoding='utf-8').read()\<close>,
  \<open>BeautifulSoup\<close> is the \<open>html.parser\<close> tree builder, \<open>json_load\<close> is \<open>open\<close>
  followed by \<open>json.load\<close>, \<open>json_dumps\<close> is \<open>json.dumps\<close>, \<open>os_path_exists\<close> is
  \<open>os.path.exists\<close>. A JSON file that loads holds a dictionary of the shape
  \<open>parse_html_file\<close> writes, its \<open>jobs\<close>, when present, a list of job dictionaries;
  files of other shapes are outside the model. Interrupts from outside the program
  (\<open>KeyboardInterrupt\<close>) are not modelled.
\<close>

datatype py_error = FileNotFoundError string | ValueError string | Exception string


record metadata =
  md_title :: string
  md_url :: string
  md_scraped_at :: timestamp
  md_total_jobs_found :: nat
  md_jobs_count_text :: string
  md_total_jobs_on_page :: "int option"
  md_source_file :: "string option"

record parsing_stats =
  ps_html_length :: "nat option"
  ps_jobs_extracted :: "nat option"
  ps_parsing_successful :: bool

text \<open>
  The dictionary \<open>parse_html_file\<close> returns, which \<open>main\<close> dumps to a JSON file and
  \<open>import_from_json_file\<close> reads back.
\<close>

record result_dict =
  r_metadata :: "metadata option"
  r_jobs :: "job_data list option"
  r_parsing_stats :: "parsing_stats option"
  r_error :: "string option"
  r_source_file :: "string option"

record environment =
  open_read :: "string \<Rightarrow> py_error + string"
  BeautifulSoup :: "string \<Rightarrow> py_error + element"
  os_path_exists :: "string \<Rightarrow> bool"
  json_load :: "string \<Rightarrow> py_error + result_dict"
  json_dumps :: "result_dict \<Rightarrow> string"

text \<open>\<open>os.path.basename\<close> as \<open>posixpath\<close> has it: what follows the last slash.\<close>

definition basename :: "string \<Rightarrow> string" where
  "basename p = rev (takeWhile (\<lambda>c. c \<noteq> CHR ''/'') (rev p))"







section \<open>The SQLite persistence layer (src/data/database_manager.py)\<close>

text \<open>
  The database file is modelled as a record holding the rows of the three tables the
  scraping pipeline writes (\<open>scraped_data\<close>, \<open>jobs\<close>, \<open>cover_letters\<close>), each as a list
  in rowid order, together with the \<open>sqlite_sequence\<close> counter that
  \<open>INTEGER PRIMARY KEY AUTOINCREMENT\<close> keeps per table. Every method of
  \<open>UpworkDatabase\<close> opens its own connection, runs one statement, commits and closes,
  so a method is a function from the database to the new database and the returned value.

  A column holds \<open>None\<close> for SQL NULL; the \<open>NOT NULL\<close> and \<open>UNIQUE\<close> constraints of
  \<open>init_database\<close> are not part of the row types but are enforced by the insert
  functions and proved as invariants below. Timestamps written by
  \<open>DEFAULT CURRENT_TIMESTAMP\<close> are readings of the clock, a natural number handed to
  the function that inserts. Python integers and SQLite rowids are unbounded integers here.
\<close>

record scraped_data_row =
  sd_id :: int
  sd_scrape_type :: "string option"
  sd_source_url :: "string option"
  sd_scrape_timestamp :: "timestamp option"
  sd_raw_content :: "string option"
  sd_file_path :: "string option"
  sd_status :: "string option"
  sd_notes :: "string option"

text \<open>
  The \<open>skills\<close> column holds \<open>json.dumps\<close> of the skills list; the model keeps the list
  itself, of which that text is an encoding.
\<close>

record jobs_row =
  j_id :: int
  j_scrape_id :: "int option"
  j_job_uid :: "string option"
  j_job_title :: "string option"
  j_job_url :: "string option"
  j_posted_time :: "string option"
  j_job_type :: "string option"
  j_experience_level :: "string option"
  j_budget :: "string option"
  j_hourly_rate_min :: "string option"
  j_hourly_rate_max :: "string option"
  j_duration :: "string option"
  j_skills :: "string list option"
  j_description :: "string option"
  j_parsed_timestamp :: "timestamp option"

record cover_letters_row =
  cl_id :: int
  cl_job_id :: "int option"
  cl_ai_provider :: "string option"
  cl_cover_letter_text :: "string option"
  cl_generated_timestamp :: "timestamp option"
  cl_status :: "string option"
  cl_rating :: "int option"
  cl_notes :: "string option"

record database =
  scraped_data :: "scraped_data_row list"
  scraped_data_seq :: int
  jobs :: "jobs_row list"
  jobs_seq :: int
  cover_letters :: "cover_letters_row list"
  cover_letters_seq :: int

text \<open>\<open>init_database\<close> on a fresh file: \<open>CREATE TABLE IF NOT EXISTS\<close> leaves empty tables.\<close>

definition init_database :: database where
  "init_database =
     \<lparr>scraped_data = [], scraped_data_seq = 0, jobs = [], jobs_seq = 0,
      cover_letters = [], cover_letters_seq = 0\<rparr>"

text \<open>
  The rowid an AUTOINCREMENT table gives to a new row: one more than the largest rowid
  the table has ever held, which is the larger of the \<open>sqlite_sequence\<close> entry and the
  rowids present.
\<close>

definition new_rowid :: "int \<Rightarrow> int list \<Rightarrow> int" where
  "new_rowid seq ids = fold max ids seq + 1"

subsection \<open>add_scraped_data\<close>

text \<open>
  A plain \<open>INSERT\<close> that names five columns; \<open>scrape_timestamp\<close> and \<open>status\<close> take
  their defaults. \<open>scrape_type\<close> and \<open>raw_content\<close> are strings by the method's
  signature, so the \<open>NOT NULL\<close> constraints cannot fail. The result is
  \<open>cursor.lastrowid\<close>, the rowid of the row just inserted.
\<close>

definition add_scraped_data ::
  "timestamp \<Rightarrow> database \<Rightarrow> string \<Rightarrow> string \<Rightarrow> string option \<Rightarrow> string option \<Rightarrow>
   string option \<Rightarrow> int \<times> database" where
  "add_scraped_data now db scrape_type raw_content source_url file_path notes =
     (let scrape_id = new_rowid (scraped_data_seq db) (map sd_id (scraped_data db));
          row = \<lparr>sd_id = scrape_id, sd_scrape_type = Some scrape_type,
                 sd_source_url = source_url, sd_scrape_timestamp = Some now,
                 sd_raw_content = Some raw_content, sd_file_path = file_path,
                 sd_status = Some ''active'', sd_notes = notes\<rparr>
      in (scrape_id,
          db\<lparr>scraped_data := scraped_data db @ [row], scraped_data_seq := scrape_id\<rparr>))"

subsection \<open>add_job\<close>

text \<open>
  \<open>INSERT OR IGNORE\<close>: the row is skipped, without an error, when it would violate
  \<open>job_title TEXT NOT NULL\<close> or \<open>job_uid TEXT UNIQUE\<close> (NULLs never collide under
  UNIQUE). The rowid is allocated before the constraints are checked, so a skipped
  insert may still advance \<open>sqlite_sequence\<close>; no theorem below depends on that.
  \<open>cursor.lastrowid\<close> is \<open>sqlite3_last_insert_rowid\<close> of the connection, and the
  connection is new in every call: after a skipped insert it is 0.
\<close>

definition job_uid_conflict :: "jobs_row list \<Rightarrow> string option \<Rightarrow> bool" where
  "job_uid_conflict rows uid =
     (case uid of None \<Rightarrow> False | Some u \<Rightarrow> list_ex (\<lambda>r. j_job_uid r = Some u) rows)"

definition job_row_of :: "timestamp \<Rightarrow> int \<Rightarrow> int \<Rightarrow> job_data \<Rightarrow> jobs_row" where
  "job_row_of now rowid scrape_id job_data =
     (let skills_json = (case jd_skills job_data of None \<Rightarrow> [] | Some s \<Rightarrow> s);
          info = (case jd_job_info job_data of None \<Rightarrow> empty_job_info | Some i \<Rightarrow> i)
      in \<lparr>j_id = rowid, j_scrape_id = Some scrape_id, j_job_uid = jd_job_uid job_data,
          j_job_title = jd_title job_data, j_job_url = jd_url job_data,
          j_posted_time = jd_posted_time job_data, j_job_type = ji_type info,
          j_experience_level = ji_experience_level info, j_budget = ji_budget info,
          j_hourly_rate_min = ji_hourly_rate_min info,
          j_hourly_rate_max = ji_hourly_rate_max info, j_duration = ji_duration info,
          j_skills = Some skills_json, j_description = jd_description job_data,
          j_parsed_timestamp = Some now\<rparr>)"

definition add_job :: "timestamp \<Rightarrow> database \<Rightarrow> int \<Rightarrow> job_data \<Rightarrow> int \<times> database" where
  "add_job now db scrape_id job_data =
     (let rowid = new_rowid (jobs_seq db) (map j_id (jobs db));
          row = job_row_of now rowid scrape_id job_data
      in if j_job_title row = None \<or> job_uid_conflict (jobs db) (j_job_uid row)
         then (0, db\<lparr>jobs_seq := rowid\<rparr>)
         else (rowid, db\<lparr>jobs := jobs db @ [row], jobs_seq := rowid\<rparr>))"

subsection \<open>Cover letters\<close>

definition add_cover_letter ::
  "timestamp \<Rightarrow> database \<Rightarrow> int \<Rightarrow> string \<Rightarrow> string \<Rightarrow> string option \<Rightarrow> int \<times> database" where
  "add_cover_letter now db job_id ai_provider cover_letter_text notes =
     (let cover_letter_id = new_rowid (cover_letters_seq db) (map cl_id (cover_letters db));
          row = \<lparr>cl_id = cover_letter_id, cl_job_id = Some job_id,
                 cl_ai_provider = Some ai_provider,
                 cl_cover_letter_text = Some cover_letter_text,
                 cl_generated_timestamp = Some now, cl_status = Some ''generated'',
                 cl_rating = None, cl_notes = notes\<rparr>
      in (cover_letter_id,
          db\<lparr>cover_letters := cover_letters db @ [row],
             cover_letters_seq := cover_letter_id\<rparr>))"




definition update_cover_letter_status ::
  "database \<Rightarrow> int \<Rightarrow> string \<Rightarrow> int option \<Rightarrow> string option \<Rightarrow> database" where
  "update_cover_letter_status db cover_letter_id status rating notes =
     db\<lparr>cover_letters :=
          map (\<lambda>row. if cl_id row = cover_letter_id
                      then row\<lparr>cl_status := Some status, cl_rating := rating, cl_notes := notes\<rparr>
                      else row)
            (cover_letters db)\<rparr>"

definition delete_cover_letter :: "database \<Rightarrow> int \<Rightarrow> database" where
  "delete_cover_letter db cover_letter_id =
     db\<lparr>cover_letters := filter (\<lambda>row. cl_id row \<noteq> cover_letter_id) (cover_letters db)\<rparr>"

section \<open>Database cleanup (src/data/database_cleanup.py)\<close>

text \<open>
  Each cleanup method counts the rows its \<open>DELETE\<close> would remove and runs the
  \<open>DELETE\<close> only when the count is positive. Foreign keys are declared but never
  switched on (no \<open>PRAGMA foreign_keys\<close>), so deleting a job does not cascade.
  \<open>x NOT IN (...)\<close> is NULL, hence not selected, for a NULL \<open>x\<close> and a non-empty list,
  and true for every \<open>x\<close> when the list is empty. The tables exist, \<open>init_database\<close>
  creates them together, so the handlers of \<open>sqlite3.OperationalError\<close> are never
  entered.
\<close>

definition sql_not_in :: "'a option \<Rightarrow> 'a list \<Rightarrow> bool" where
  "sql_not_in x ys =
     (if ys = [] then True else (case x of None \<Rightarrow> False | Some v \<Rightarrow> v \<notin> set ys))"

definition cleanup_scraped_data :: "database \<Rightarrow> int list \<Rightarrow> database" where
  "cleanup_scraped_data db keep_ids =
     (if keep_ids = [] then db
      else let delete_count =
                 length (filter (\<lambda>row. sql_not_in (Some (sd_id row)) keep_ids) (scraped_data db))
           in if delete_count > 0
              then db\<lparr>scraped_data :=
                        filter (\<lambda>row. \<not> sql_not_in (Some (sd_id row)) keep_ids) (scraped_data db)\<rparr>
              else db)"

definition cleanup_jobs :: "database \<Rightarrow> int list \<Rightarrow> database" where
  "cleanup_jobs db keep_scrape_ids =
     (if keep_scrape_ids = [] then db
      else let delete_count =
                 length (filter (\<lambda>row. sql_not_in (j_scrape_id row) keep_scrape_ids) (jobs db))
           in if delete_count > 0
              then db\<lparr>jobs :=
                        filter (\<lambda>row. \<not> sql_not_in (j_scrape_id row) keep_scrape_ids) (jobs db)\<rparr>
              else db)"

text \<open>
  The count is over \<open>cover_letters cl LEFT JOIN jobs j ON cl.job_id = j.id WHERE j.id IS
  NULL\<close>: the cover letters no job row joins with. The delete is
  \<open>WHERE job_id NOT IN (SELECT id FROM jobs)\<close>.
\<close>

definition cleanup_orphaned_cover_letters :: "database \<Rightarrow> database" where
  "cleanup_orphaned_cover_letters db =
     (let orphaned_count =
            length (filter (\<lambda>cl. \<not> list_ex (\<lambda>j. cl_job_id cl = Some (j_id j)) (jobs db))
                      (cover_letters db))
      in if orphaned_count > 0
         then db\<lparr>cover_letters :=
                   filter (\<lambda>cl. \<not> sql_not_in (cl_job_id cl) (map j_id (jobs db)))
                     (cover_letters db)\<rparr>
         else db)"


subsection \<open>import_from_json_file\<close>

text \<open>
  The clock is read by every insert; \<open>clock k\<close> is its reading at the \<open>k\<close>-th insert of
  the call. The loop counts every job of the list, whatever \<open>add_job\<close> did with it.
\<close>

fun import_jobs_loop ::
  "(nat \<Rightarrow> timestamp) \<Rightarrow> nat \<Rightarrow> database \<Rightarrow> int \<Rightarrow> job_data list \<Rightarrow> nat \<Rightarrow> nat \<times> database" where
  "import_jobs_loop clock k db scrape_id [] jobs_added = (jobs_added, db)"
| "import_jobs_loop clock k db scrape_id (job # rest) jobs_added =
     import_jobs_loop clock (Suc k) (snd (add_job (clock k) db scrape_id job)) scrape_id rest
       (jobs_added + 1)"

definition import_from_json_file ::
  "environment \<Rightarrow> (nat \<Rightarrow> timestamp) \<Rightarrow> database \<Rightarrow> string \<Rightarrow> string \<Rightarrow>
   py_error + ((int \<times> nat) \<times> database)" where
  "import_from_json_file env clock db file_path scrape_type =
     (if \<not> os_path_exists env file_path
      then Inl (FileNotFoundError (''File not found: '' @ file_path))
      else case json_load env file_path of
             Inl e \<Rightarrow> Inl e
           | Inr data \<Rightarrow>
               (let (scrape_id, db) =
                      add_scraped_data (clock 0) db scrape_type (json_dumps env data)
                        (case r_metadata data of None \<Rightarrow> None | Some m \<Rightarrow> Some (md_url m))
                        (Some file_path) (Some (''Imported from '' @ basename file_path));
                    (jobs_added, db) =
                      (case r_jobs data of
                         None \<Rightarrow> (0, db)
                       | Some job_list \<Rightarrow> import_jobs_loop clock 1 db scrape_id job_list 0)
                in Inr ((scrape_id, jobs_added), db)))"

section \<open>Reachable databases\<close>

text \<open>
  The databases the program can produce: the empty one of \<open>init_database\<close>, changed by
  the methods that write to the three tables.
\<close>

inductive reachable :: "database \<Rightarrow> bool" where
  r_init: "reachable init_database"
| r_add_scraped_data:
    "reachable db \<Longrightarrow>
     reachable (snd (add_scraped_data now db scrape_type raw_content source_url file_path notes))"
| r_add_job: "reachable db \<Longrightarrow> reachable (snd (add_job now db scrape_id job_data))"
| r_add_cover_letter:
    "reachable db \<Longrightarrow>
     reachable (snd (add_cover_letter now db job_id ai_provider cover_letter_text notes))"
| r_update_cover_letter_status:
    "reachable db \<Longrightarrow> reachable (update_cover_letter_status db cover_letter_id status rating notes)"
| r_delete_cover_letter: "reachable db \<Longrightarrow> reachable (delete_cover_letter db cover_letter_id)"
| r_cleanup_scraped_data: "reachable db \<Longrightarrow> reachable (cleanup_scraped_data db keep_ids)"
| r_cleanup_jobs: "reachable db \<Longrightarrow> reachable (cleanup_jobs db keep_scrape_ids)"
| r_cleanup_orphaned_cover_letters:
    "reachable db \<Longrightarrow> reachable (cleanup_orphaned_cover_letters db)"


section \<open>Predicates of the statements\<close>

text \<open>
  No two rows of the jobs table share a non-null \<open>job_uid\<close>.
\<close>

definition job_uid_unique :: "jobs_row list \<Rightarrow> bool" where
  "job_uid_unique rows = distinct (List.map_filter j_job_uid rows)"

text \<open>
  A row holds a job's data when it is the row \<open>add_job\<close> builds from that job, whatever
  its rowid and the time of the insert.
\<close>

definition holds_job :: "jobs_row \<Rightarrow> int \<Rightarrow> job_data \<Rightarrow> bool" where
  "holds_job row scrape_id job_data =
     (case j_parsed_timestamp row of
        None \<Rightarrow> False
      | Some now \<Rightarrow> row = job_row_of now (j_id row) scrape_id job_data)"


text \<open>
  A cover letter references a job when its \<open>job_id\<close> is the \<open>id\<close> of a jobs row.
\<close>

definition references_job :: "jobs_row list \<Rightarrow> cover_letters_row \<Rightarrow> bool" where
  "references_job rows cl = list_ex (\<lambda>j. cl_job_id cl = Some (j_id j)) rows"

text \<open>
  A job element from which a non-empty title can be extracted.
\<close>

definition has_title :: "element \<Rightarrow> bool" where
  "has_title job_element =
     (case title_link job_element of None \<Rightarrow> False | Some link \<Rightarrow> get_text link \<noteq> [])"

text \<open>
  The classes of the groups of a regular expression, in order.
\<close>

fun group_classes :: "re_item list \<Rightarrow> char_class list" where
  "group_classes [] = []"
| "group_classes (Group_Plus cls # r) = cls # group_classes r"
| "group_classes (item # r) = group_classes r"

section \<open>Concrete inputs\<close>

text \<open>
  Two postings with the same \<open>job_uid\<close>; a database that holds the first; that database
  with two cover letters for the job; and with one cover letter for a job that does not
  exist.
\<close>

definition job_a :: job_data where
  "job_a = empty_job_data\<lparr>jd_job_uid := Some ''~0123'', jd_title := Some ''Build a scraper''\<rparr>"

definition job_b :: job_data where
  "job_b = empty_job_data\<lparr>jd_job_uid := Some ''~0123'', jd_title := Some ''Fix a parser''\<rparr>"

definition db_one_job :: database where
  "db_one_job =
     snd (add_job 5 (snd (add_scraped_data 3 init_database ''browser'' ''html'' None None None))
            1 job_a)"


definition db_orphan :: database where
  "db_orphan =
     snd (add_cover_letter 20
            (snd (add_cover_letter 10 db_one_job 99 ''trained_gpt2_smart'' ''Dear client'' None))
            1 ''trained_gpt2_smart'' ''Hello'' None)"




text \<open>
  Job-info items, and a job tile whose two items contain \<open>Fixed price\<close> before an
  hourly range and before a budget.
\<close>

definition item_fixed :: element where
  "item_fixed = Element [] ''li'' [] [Tag ''strong'' [] [NavigableString ''Fixed price'']]"

definition item_hourly :: element where
  "item_hourly = Element [] ''li'' [] [Tag ''strong'' [] [NavigableString ''Hourly: $10.00 - $20.00'']]"

definition item_budget :: element where
  "item_budget = Element [] ''li'' [] [NavigableString ''Est. budget: $500.00 '']"

definition item_fixed_hourly :: string where
  "item_fixed_hourly = ''Fixed price Hourly: $10 - $20''"

definition item_fixed_budget :: string where
  "item_fixed_budget = ''Fixed price - Est. budget: $500''"

definition doc_fixed_hourly :: element where
  "doc_fixed_hourly =
     Element [] ''[document]'' []
       [Tag ''article'' [(''data-test'', ''JobTile'')]
          [Tag ''h2'' [] [Tag ''a'' [(''href'', ''/jobs/1'')] [NavigableString ''Logo design'']],
           Tag ''ul'' [(''data-test'', ''JobInfo'')]
             [Tag ''li'' [] [NavigableString item_fixed_hourly],
              Tag ''li'' [] [NavigableString item_fixed_budget]]]]"

text \<open>
  Documents with job tiles of the three kinds, a document whose tiles differ in their
  title links, and a world with one readable page that holds no job tile.
\<close>

definition doc_mixed :: element where
  "doc_mixed =
     Element [] ''[document]'' []
       [Tag ''section'' [(''data-qa'', ''job-tile'')]
          [Tag ''h2'' [] [Tag ''a'' [] [NavigableString ''From the section'']]],
        Tag ''article'' [(''data-test'', ''JobTile'')]
          [Tag ''h2'' [] [Tag ''a'' [] [NavigableString ''From the article'']]]]"

definition doc_section :: element where
  "doc_section =
     Element [] ''[document]'' []
       [Tag ''div'' [(''data-qa'', ''job-tile'')]
          [Tag ''h2'' [] [Tag ''a'' [] [NavigableString ''From the div'']]],
        Tag ''section'' [(''data-qa'', ''job-tile'')]
          [Tag ''h2'' [] [Tag ''a'' [] [NavigableString ''From the section'']]]]"

definition doc_div :: element where
  "doc_div =
     Element [] ''[document]'' []
       [Tag ''div'' [(''data-qa'', ''job-tile'')]
          [Tag ''h2'' [] [Tag ''a'' [] [NavigableString ''From the div'']]]]"

definition doc_titles :: element where
  "doc_titles =
     Element [] ''[document]'' []
       [Tag ''article'' [(''data-test'', ''JobTile'')]
          [Tag ''h2'' [] [Tag ''a'' [] [NavigableString ''  '']], Tag ''p'' [] [NavigableString ''No title text'']],
        Tag ''article'' [(''data-test'', ''JobTile'')]
          [Tag ''h2'' [] [Tag ''a'' [] [NavigableString '' Data entry '']]],
        Tag ''article'' [(''data-test'', ''JobTile'')]
          [Tag ''p'' [] [NavigableString ''No title link'']]]"


section \<open>Invariants of the database\<close>

lemma fold_max_ge: "(s::int) \<le> fold max xs s"
  by (induction xs arbitrary: s) (auto intro: order_trans [OF max.cobounded2])

lemma fold_max_ge_elem: "(x::int) \<in> set xs \<Longrightarrow> x \<le> fold max xs s"
proof (induction xs arbitrary: s)
  case Nil
  then show ?case by simp
next
  case (Cons y ys)
  show ?case
  proof (cases "x = y")
    case True
    have "y \<le> max y s" by simp
    also have "\<dots> \<le> fold max ys (max y s)" by (rule fold_max_ge)
    finally show ?thesis using True by simp
  next
    case False
    with Cons show ?thesis by simp
  qed
qed

lemma new_rowid_fresh: "new_rowid seq ids \<notin> set ids"
proof
  assume "new_rowid seq ids \<in> set ids"
  then have "new_rowid seq ids \<le> fold max ids seq" by (rule fold_max_ge_elem)
  then show False by (simp add: new_rowid_def)
qed

lemma new_rowid_gt_seq: "seq < new_rowid seq ids"
  using fold_max_ge [of seq ids] by (simp add: new_rowid_def)

lemma job_row_of_simps:
  "j_id (job_row_of now rowid scrape_id jd) = rowid"
  "j_job_uid (job_row_of now rowid scrape_id jd) = jd_job_uid jd"
  "j_job_title (job_row_of now rowid scrape_id jd) = jd_title jd"
  "j_scrape_id (job_row_of now rowid scrape_id jd) = Some scrape_id"
  by (simp_all add: job_row_of_def Let_def)

lemma jobs_add_job:
  "jobs (snd (add_job now db scrape_id jd)) =
     (if jd_title jd = None \<or> job_uid_conflict (jobs db) (jd_job_uid jd) then jobs db
      else jobs db @ [job_row_of now (new_rowid (jobs_seq db) (map j_id (jobs db))) scrape_id jd])"
  by (simp add: add_job_def Let_def job_row_of_simps)

lemma fst_add_job:
  "fst (add_job now db scrape_id jd) =
     (if jd_title jd = None \<or> job_uid_conflict (jobs db) (jd_job_uid jd) then 0
      else new_rowid (jobs_seq db) (map j_id (jobs db)))"
  by (simp add: add_job_def Let_def job_row_of_simps)

lemma jobs_unchanged [simp]:
  "jobs (snd (add_scraped_data now db a b c d e)) = jobs db"
  "jobs (snd (add_cover_letter now db j p t n)) = jobs db"
  "jobs (update_cover_letter_status db i s r n) = jobs db"
  "jobs (delete_cover_letter db i) = jobs db"
  "jobs (cleanup_scraped_data db ks) = jobs db"
  "jobs (cleanup_orphaned_cover_letters db) = jobs db"
  by (simp_all add: add_scraped_data_def add_cover_letter_def update_cover_letter_status_def
      delete_cover_letter_def cleanup_scraped_data_def cleanup_orphaned_cover_letters_def Let_def)

lemma cover_letters_unchanged [simp]:
  "cover_letters (snd (add_scraped_data now db a b c d e)) = cover_letters db"
  "cover_letters (snd (add_job now db sid jd)) = cover_letters db"
  "cover_letters (cleanup_scraped_data db ks) = cover_letters db"
  "cover_letters (cleanup_jobs db ks) = cover_letters db"
  by (simp_all add: add_scraped_data_def add_job_def cleanup_scraped_data_def cleanup_jobs_def
      Let_def)

lemma scraped_data_add_job [simp]:
  "scraped_data (snd (add_job now db scrape_id jd)) = scraped_data db"
  by (simp add: add_job_def Let_def)

lemma job_uid_conflict_iff:
  "job_uid_conflict rows uid \<longleftrightarrow> (\<exists>u. uid = Some u \<and> u \<in> set (List.map_filter j_job_uid rows))"
  by (cases uid) (auto simp: job_uid_conflict_def list_ex_iff List.map_filter_def image_iff)

lemma job_uid_unique_append:
  "job_uid_unique (rows @ [row]) \<longleftrightarrow>
     job_uid_unique rows \<and> \<not> job_uid_conflict rows (j_job_uid row)"
  by (cases "j_job_uid row")
    (auto simp: job_uid_unique_def job_uid_conflict_iff List.map_filter_def)

lemma job_uid_unique_filter: "job_uid_unique rows \<Longrightarrow> job_uid_unique (filter P rows)"
proof -
  have "filter (\<lambda>x. j_job_uid x \<noteq> None) (filter P rows) =
        filter P (filter (\<lambda>x. j_job_uid x \<noteq> None) rows)"
    by (simp add: conj_commute)
  then show "job_uid_unique rows \<Longrightarrow> job_uid_unique (filter P rows)"
    unfolding job_uid_unique_def List.map_filter_def by (simp only: distinct_map_filter)
qed

lemma job_uid_unique_add_job:
  "job_uid_unique (jobs db) \<Longrightarrow> job_uid_unique (jobs (snd (add_job now db scrape_id jd)))"
  by (simp add: jobs_add_job job_uid_unique_append job_row_of_simps)

lemma job_uid_unique_cleanup_jobs:
  "job_uid_unique (jobs db) \<Longrightarrow> job_uid_unique (jobs (cleanup_jobs db ks))"
  by (simp add: cleanup_jobs_def Let_def job_uid_unique_filter)

lemma reachable_job_uid_unique: "reachable db \<Longrightarrow> job_uid_unique (jobs db)"
proof (induction rule: reachable.induct)
  case r_init
  show ?case by (simp add: init_database_def job_uid_unique_def List.map_filter_def)
next
  case (r_add_job db now scrape_id job_data)
  then show ?case by (simp add: job_uid_unique_add_job)
next
  case (r_cleanup_jobs db keep_scrape_ids)
  then show ?case by (simp add: job_uid_unique_cleanup_jobs)
qed simp_all


lemma jobs_seq_bounds: "reachable db \<Longrightarrow> 0 \<le> jobs_seq db \<and> (\<forall>row \<in> set (jobs db). 0 < j_id row)"
proof (induction rule: reachable.induct)
  case r_init
  show ?case by (simp add: init_database_def)
next
  case (r_add_job db now scrape_id job_data)
  have "jobs_seq db < new_rowid (jobs_seq db) (map j_id (jobs db))"
    by (rule new_rowid_gt_seq)
  with r_add_job.IH show ?case
    by (auto simp: add_job_def Let_def job_row_of_simps)
next
  case (r_cleanup_jobs db keep_scrape_ids)
  then show ?case by (auto simp: cleanup_jobs_def Let_def)
qed (simp_all add: add_scraped_data_def add_cover_letter_def update_cover_letter_status_def
      delete_cover_letter_def cleanup_scraped_data_def cleanup_orphaned_cover_letters_def Let_def)


lemma db_one_job_reachable: "reachable db_one_job"
  unfolding db_one_job_def by (intro reachable.intros)

lemma jobs_db_one_job: "jobs db_one_job = [job_row_of 5 1 1 job_a]"
  by (simp add: db_one_job_def jobs_add_job job_a_def empty_job_data_def
      job_uid_conflict_def add_scraped_data_def init_database_def new_rowid_def Let_def)

lemma cover_letters_db_one_job: "cover_letters db_one_job = []"
  by (simp add: db_one_job_def init_database_def)


lemma import_jobs_loop_reachable:
  "reachable db \<Longrightarrow> reachable (snd (import_jobs_loop clock k db scrape_id js n))"
proof (induction js arbitrary: k db n)
  case Nil
  then show ?case by simp
next
  case (Cons j js)
  from Cons.prems have "reachable (snd (add_job (clock k) db scrape_id j))"
    by (rule r_add_job)
  then show ?case by (simp add: Cons.IH)
qed

lemma import_from_json_file_reachable:
  assumes "reachable db"
    and "import_from_json_file env clock db file_path scrape_type = Inr (r, db')"
  shows "reachable db'"
proof -
  from assms(2) obtain data where d: "json_load env file_path = Inr data"
    by (auto simp: import_from_json_file_def split: if_splits sum.splits)
  define p where
    "p = add_scraped_data (clock 0) db scrape_type (json_dumps env data)
           (case r_metadata data of None \<Rightarrow> None | Some m \<Rightarrow> Some (md_url m))
           (Some file_path) (Some (''Imported from '' @ basename file_path))"
  have rp: "reachable (snd p)"
    unfolding p_def using assms(1) by (rule r_add_scraped_data)
  show ?thesis
  proof (cases "r_jobs data")
    case None
    with assms(2) d have "db' = snd p"
      by (simp add: import_from_json_file_def case_prod_beta Let_def p_def split: if_splits)
    with rp show ?thesis by simp
  next
    case (Some js)
    with assms(2) d have "db' = snd (import_jobs_loop clock 1 (snd p) (fst p) js 0)"
      by (simp add: import_from_json_file_def case_prod_beta Let_def p_def split: if_splits)
    with rp show ?thesis by (simp add: import_jobs_loop_reachable)
  qed
qed

section \<open>Uniqueness of job\_uid\<close>

text \<open>
  Claim C1. The jobs table enforces uniqueness of \<open>job_uid\<close>. In every database in
  which some row has a given non-null \<open>job_uid\<close>, \<open>add_job\<close> with a job of that
  \<open>job_uid\<close> leaves the rows of the jobs table as they are: the insert is ignored. And
  in every reachable database no two rows of the jobs table share a non-null \<open>job_uid\<close>.
\<close>

theorem add_job_keeps_job_uid_unique:
  "(jd_job_uid job_data = Some u \<and> (\<exists>row \<in> set (jobs db). j_job_uid row = Some u) \<longrightarrow>
      jobs (snd (add_job now db scrape_id job_data)) = jobs db) \<and>
   (reachable db' \<longrightarrow> job_uid_unique (jobs db'))"
  by (auto simp: jobs_add_job job_uid_conflict_def list_ex_iff reachable_job_uid_unique)

text \<open>
  The database that holds the posting \<open>job_a\<close> is reachable; adding \<open>job_b\<close>, which has
  the same \<open>job_uid\<close>, changes no row.
\<close>

theorem add_job_keeps_job_uid_unique_witness:
  "jd_job_uid job_b = Some ''~0123'' \<and>
   (\<exists>row \<in> set (jobs db_one_job). j_job_uid row = Some ''~0123'') \<and>
   jobs (snd (add_job 7 db_one_job 1 job_b)) = jobs db_one_job \<and>
   reachable db_one_job \<and> job_uid_unique (jobs db_one_job)"
proof -
  have 1: "jd_job_uid job_b = Some ''~0123''"
    by (simp add: job_b_def empty_job_data_def)
  have 2: "\<exists>row \<in> set (jobs db_one_job). j_job_uid row = Some ''~0123''"
    by (simp add: jobs_db_one_job job_row_of_simps job_a_def empty_job_data_def)
  show ?thesis
    using add_job_keeps_job_uid_unique [of job_b "''~0123''" db_one_job 7 1 db_one_job]
      1 2 db_one_job_reachable
    by simp
qed

section \<open>The value add\_job returns\<close>

lemma add_job_ignored:
  assumes "reachable db" and "job_uid_conflict (jobs db) (jd_job_uid job_data)"
  shows "fst (add_job now db scrape_id job_data) = 0"
    and "jobs (snd (add_job now db scrape_id job_data)) = jobs db"
    and "0 \<notin> set (map j_id (jobs db))"
  using assms jobs_seq_bounds [OF assms(1)] by (auto simp: fst_add_job jobs_add_job)

text \<open>
  Claim C8. When the insert is ignored the value \<open>add_job\<close> returns names no row that
  holds the job: there are a reachable database and a job whose non-null \<open>job_uid\<close> is
  already in the table such that no row of the table after the call has the returned
  id, and no row holds the job's data. (In a reachable database every ignored insert
  returns 0 and every rowid is positive, by the lemma before.)
\<close>

theorem add_job_return_value_names_no_row:
  "\<exists>db now scrape_id job_data.
     reachable db \<and> jd_job_uid job_data \<noteq> None \<and>
     list_ex (\<lambda>row. j_job_uid row = jd_job_uid job_data) (jobs db) \<and>
     \<not> list_ex (\<lambda>row. j_id row = fst (add_job now db scrape_id job_data))
          (jobs (snd (add_job now db scrape_id job_data))) \<and>
     \<not> list_ex (\<lambda>row. holds_job row scrape_id job_data)
          (jobs (snd (add_job now db scrape_id job_data)))"
proof -
  have c: "job_uid_conflict (jobs db_one_job) (jd_job_uid job_b)"
    by (simp add: job_uid_conflict_def jobs_db_one_job job_row_of_simps job_a_def job_b_def
        empty_job_data_def)
  note ign = add_job_ignored [OF db_one_job_reachable c]
  have "jd_job_uid job_b \<noteq> None" by (simp add: job_b_def empty_job_data_def)
  moreover have "list_ex (\<lambda>row. j_job_uid row = jd_job_uid job_b) (jobs db_one_job)"
    by (simp add: jobs_db_one_job job_row_of_simps job_a_def job_b_def empty_job_data_def)
  moreover have "\<not> list_ex (\<lambda>row. j_id row = fst (add_job 7 db_one_job 1 job_b))
      (jobs (snd (add_job 7 db_one_job 1 job_b)))"
    using ign by (simp add: list_ex_iff image_iff)
  moreover have "\<not> list_ex (\<lambda>row. holds_job row 1 job_b) (jobs (snd (add_job 7 db_one_job 1 job_b)))"
    unfolding ign(2) jobs_db_one_job
    by (simp add: holds_job_def job_row_of_def job_a_def job_b_def empty_job_data_def Let_def)
  ultimately show ?thesis using db_one_job_reachable by blast
qed

section \<open>add\_scraped\_data\<close>

text \<open>
  Claim C6, as amended. Each call of \<open>add_scraped_data\<close> appends exactly one row to
  \<open>scraped_data\<close>. The row holds the given \<open>raw_content\<close> and \<open>scrape_type\<close>, its
  \<open>scrape_timestamp\<close> is the time of the insert, its \<open>status\<close> is \<open>active\<close>, and its
  \<open>source_url\<close> is the \<open>source_url\<close> argument, which is NULL when the caller passes
  none. The value returned is the id of the new row, an id no other row has.
\<close>

theorem add_scraped_data_inserts_one_row:
  "\<exists>row. scraped_data (snd (add_scraped_data now db scrape_type raw_content source_url file_path notes)) =
            scraped_data db @ [row] \<and>
         sd_raw_content row = Some raw_content \<and> sd_scrape_type row = Some scrape_type \<and>
         sd_scrape_timestamp row = Some now \<and>
         sd_source_url row = source_url \<and>
         sd_status row = Some ''active'' \<and>
         sd_id row = fst (add_scraped_data now db scrape_type raw_content source_url file_path notes) \<and>
         sd_id row \<notin> set (map sd_id (scraped_data db))"
  using new_rowid_fresh [of "scraped_data_seq db" "map sd_id (scraped_data db)"]
  by (simp add: add_scraped_data_def Let_def)

text \<open>
  Claim C6 as stated asks for a source URL in every stored scrape. A call that passes no
  \<open>source_url\<close>, as the one in the \<open>__main__\<close> block of \<open>database_manager.py\<close> does,
  stores a row whose \<open>source_url\<close> is NULL.
\<close>

theorem add_scraped_data_without_source_url:
  "scraped_data (snd (add_scraped_data 3 init_database ''test'' ''data'' None None (Some ''Test data''))) =
     [\<lparr>sd_id = 1, sd_scrape_type = Some ''test'', sd_source_url = None,
       sd_scrape_timestamp = Some 3, sd_raw_content = Some ''data'', sd_file_path = None,
       sd_status = Some ''active'', sd_notes = Some ''Test data''\<rparr>]"
  by (simp add: add_scraped_data_def init_database_def new_rowid_def Let_def)

section \<open>Cover letters of a job\<close>





section \<open>Orphaned cover letters\<close>

lemma sql_not_in_Some: "sql_not_in (Some v) ys \<longleftrightarrow> v \<notin> set ys"
  by (cases ys) (simp_all add: sql_not_in_def)

lemma cleanup_orphaned_cover_letters_filter:
  assumes "\<forall>cl \<in> set (cover_letters db). cl_job_id cl \<noteq> None"
  shows "cover_letters (cleanup_orphaned_cover_letters db) =
         filter (references_job (jobs db)) (cover_letters db)"
proof -
  have same: "filter (\<lambda>cl. \<not> sql_not_in (cl_job_id cl) (map j_id (jobs db))) (cover_letters db) =
              filter (references_job (jobs db)) (cover_letters db)"
  proof (rule filter_cong [OF refl])
    fix cl assume "cl \<in> set (cover_letters db)"
    with assms obtain v where "cl_job_id cl = Some v" by auto
    then show "(\<not> sql_not_in (cl_job_id cl) (map j_id (jobs db))) = references_job (jobs db) cl"
      by (auto simp: sql_not_in_Some references_job_def list_ex_iff)
  qed
  show ?thesis
  proof (cases "filter (\<lambda>cl. \<not> references_job (jobs db) cl) (cover_letters db) = []")
    case True
    then have "filter (references_job (jobs db)) (cover_letters db) = cover_letters db"
      by (simp add: filter_empty_conv filter_id_conv)
    with True show ?thesis
      by (simp add: cleanup_orphaned_cover_letters_def Let_def references_job_def)
  next
    case False
    then show ?thesis
      using same by (simp add: cleanup_orphaned_cover_letters_def Let_def references_job_def)
  qed
qed

text \<open>
  Claim C10. On a database whose cover letters have non-null \<open>job_id\<close>s (as the schema
  demands and every reachable database has), \<open>cleanup_orphaned_cover_letters\<close> keeps
  exactly the cover letters whose \<open>job_id\<close> is the id of a jobs row, unchanged and in
  their order, and deletes the others; the jobs table is untouched, so every cover letter
  left references an existing job.
\<close>

theorem cleanup_orphaned_cover_letters_exact:
  assumes "\<forall>cl \<in> set (cover_letters db). cl_job_id cl \<noteq> None"
  shows "cover_letters (cleanup_orphaned_cover_letters db) =
           filter (references_job (jobs db)) (cover_letters db) \<and>
         jobs (cleanup_orphaned_cover_letters db) = jobs db \<and>
         (\<forall>cl \<in> set (cover_letters (cleanup_orphaned_cover_letters db)).
            \<exists>j \<in> set (jobs (cleanup_orphaned_cover_letters db)). cl_job_id cl = Some (j_id j))"
  using cleanup_orphaned_cover_letters_filter [OF assms]
  by (auto simp: references_job_def list_ex_iff)

text \<open>
  A database with one job, a cover letter for job 99, which does not exist, and a cover
  letter for the job: the cleanup deletes the former and keeps the latter.
\<close>

theorem cleanup_orphaned_cover_letters_exact_witness:
  "list_all (\<lambda>cl. cl_job_id cl \<noteq> None) (cover_letters db_orphan) \<and>
   map cl_job_id (cover_letters db_orphan) = [Some 99, Some 1] \<and>
   map j_id (jobs db_orphan) = [1] \<and>
   map cl_job_id (cover_letters (cleanup_orphaned_cover_letters db_orphan)) = [Some 1] \<and>
   jobs (cleanup_orphaned_cover_letters db_orphan) = jobs db_orphan"
proof -
  have cl: "map cl_job_id (cover_letters db_orphan) = [Some 99, Some 1]"
    by (simp add: db_orphan_def add_cover_letter_def Let_def cover_letters_db_one_job)
  have j: "jobs db_orphan = [job_row_of 5 1 1 job_a]"
    by (simp add: db_orphan_def jobs_db_one_job)
  have nn: "\<forall>cl \<in> set (cover_letters db_orphan). cl_job_id cl \<noteq> None"
    by (simp add: db_orphan_def add_cover_letter_def Let_def cover_letters_db_one_job)
  have f: "map cl_job_id (filter (references_job (jobs db_orphan)) (cover_letters db_orphan)) =
           [Some 1]"
    unfolding j
    by (simp add: references_job_def job_row_of_simps db_orphan_def add_cover_letter_def Let_def
        cover_letters_db_one_job)
  from cleanup_orphaned_cover_letters_exact [OF nn] f
  have "map cl_job_id (cover_letters (cleanup_orphaned_cover_letters db_orphan)) = [Some 1]"
    and "jobs (cleanup_orphaned_cover_letters db_orphan) = jobs db_orphan"
    by simp_all
  with cl j nn show ?thesis by (simp add: list_all_iff job_row_of_simps)
qed

section \<open>import\_from\_json\_file\<close>













section \<open>The selector cascade of parse\_upwork\_jobs\<close>

lemma select_simple:
  "select e [c] = filter (\<lambda>x. matches_compound (el_name x, el_attrs x) c) (descendants e)"
  by (simp add: select_def matches_def cong: filter_cong)

text \<open>
  Claim C2. \<open>parse_upwork_jobs\<close> takes its job elements from a fixed chain. The three
  selectors select the descendants of the document that are \<open>article\<close> tags with
  \<open>data-test="JobTile"\<close>, \<open>section\<close> tags with \<open>data-qa="job-tile"\<close>, and tags of any
  name with \<open>data-qa="job-tile"\<close>. The jobs are parsed from the matches of the first
  selector when there is one; from those of the second only when the first has none; and
  from those of the third only when the first two have none.
\<close>

theorem job_elements_fallback_chain:
  "select soup sel_article_JobTile =
     filter (\<lambda>e. el_name e = ''article'' \<and> map_of (el_attrs e) ''data-test'' = Some ''JobTile'')
       (descendants soup) \<and>
   select soup sel_section_job_tile =
     filter (\<lambda>e. el_name e = ''section'' \<and> map_of (el_attrs e) ''data-qa'' = Some ''job-tile'')
       (descendants soup) \<and>
   select soup sel_any_job_tile =
     filter (\<lambda>e. map_of (el_attrs e) ''data-qa'' = Some ''job-tile'') (descendants soup) \<and>
   (select soup sel_article_JobTile \<noteq> [] \<longrightarrow>
      parse_upwork_jobs soup = jobs_loop [] (select soup sel_article_JobTile)) \<and>
   (select soup sel_article_JobTile = [] \<and> select soup sel_section_job_tile \<noteq> [] \<longrightarrow>
      parse_upwork_jobs soup = jobs_loop [] (select soup sel_section_job_tile)) \<and>
   (select soup sel_article_JobTile = [] \<and> select soup sel_section_job_tile = [] \<longrightarrow>
      parse_upwork_jobs soup = jobs_loop [] (select soup sel_any_job_tile))"
  by (simp add: parse_upwork_jobs_def job_elements_def Let_def sel_article_JobTile_def
      sel_section_job_tile_def sel_any_job_tile_def select_simple matches_compound_def)

text \<open>
  Three documents, one for each link of the chain. In the first a \<open>section\<close> tile comes
  before an \<open>article\<close> tile, and only the article is parsed; in the second a \<open>div\<close> tile
  comes before a \<open>section\<close> tile, and only the section is parsed.
\<close>

theorem job_elements_fallback_chain_witness:
  "select doc_mixed sel_article_JobTile \<noteq> [] \<and>
   select doc_mixed sel_section_job_tile \<noteq> [] \<and>
   parse_upwork_jobs doc_mixed = jobs_loop [] (select doc_mixed sel_article_JobTile) \<and>
   map jd_title (parse_upwork_jobs doc_mixed) = [Some ''From the article''] \<and>
   select doc_section sel_article_JobTile = [] \<and>
   select doc_section sel_section_job_tile \<noteq> [] \<and>
   parse_upwork_jobs doc_section = jobs_loop [] (select doc_section sel_section_job_tile) \<and>
   map jd_title (parse_upwork_jobs doc_section) = [Some ''From the section''] \<and>
   select doc_div sel_article_JobTile = [] \<and>
   select doc_div sel_section_job_tile = [] \<and>
   parse_upwork_jobs doc_div = jobs_loop [] (select doc_div sel_any_job_tile) \<and>
   map jd_title (parse_upwork_jobs doc_div) = [Some ''From the div'']"
proof -
  have 1: "select doc_mixed sel_article_JobTile \<noteq> [] \<and>
           select doc_mixed sel_section_job_tile \<noteq> [] \<and>
           map jd_title (parse_upwork_jobs doc_mixed) = [Some ''From the article'']"
    by code_simp
  have 2: "select doc_section sel_article_JobTile = [] \<and>
           select doc_section sel_section_job_tile \<noteq> [] \<and>
           map jd_title (parse_upwork_jobs doc_section) = [Some ''From the section'']"
    by code_simp
  have 3: "select doc_div sel_article_JobTile = [] \<and>
           select doc_div sel_section_job_tile = [] \<and>
           map jd_title (parse_upwork_jobs doc_div) = [Some ''From the div'']"
    by code_simp
  show ?thesis
    using job_elements_fallback_chain [of doc_mixed] job_elements_fallback_chain [of doc_section]
      job_elements_fallback_chain [of doc_div] 1 2 3
    by simp
qed

section \<open>Every job record has a title\<close>

lemma jobs_loop_filter:
  "jobs_loop acc es = acc @ filter (\<lambda>jd. truthy (jd_title jd)) (map parse_job_element es)"
  by (induction es arbitrary: acc) (simp_all add: Let_def)

lemma jd_title_parse_job_element:
  "jd_title (parse_job_element e) = map_option get_text (title_link e)"
  by (simp add: parse_job_element_def Let_def empty_job_data_def split: option.split)

lemma truthy_title: "truthy (jd_title (parse_job_element e)) = has_title e"
  by (simp add: jd_title_parse_job_element truthy_def has_title_def split: option.split)

text \<open>
  Claim C4. Every dictionary \<open>parse_upwork_jobs\<close> returns has a \<open>title\<close> that is not
  empty. The list returned is the list of the job elements from which a non-empty title
  is extracted, each parsed, in document order: a job element with no title link, or
  with a title link whose stripped text is empty, contributes no record.
\<close>

theorem parse_upwork_jobs_titles:
  "(\<forall>job \<in> set (parse_upwork_jobs soup). \<exists>t. jd_title job = Some t \<and> t \<noteq> []) \<and>
   parse_upwork_jobs soup = map parse_job_element (filter has_title (job_elements soup))"
proof -
  have "parse_upwork_jobs soup =
        filter (\<lambda>jd. truthy (jd_title jd)) (map parse_job_element (job_elements soup))"
    by (simp add: parse_upwork_jobs_def jobs_loop_filter)
  moreover have "\<dots> = map parse_job_element (filter has_title (job_elements soup))"
    by (simp add: filter_map comp_def truthy_title)
  moreover have "\<exists>t. jd_title (parse_job_element e) = Some t \<and> t \<noteq> []" if "has_title e" for e
    using that unfolding truthy_title [symmetric]
    by (cases "jd_title (parse_job_element e)") (simp_all add: truthy_def)
  ultimately show ?thesis by auto
qed

text \<open>
  Three job tiles: a title link with blank text, a title link with text, no title link.
  One record comes out, for the second.
\<close>

theorem parse_upwork_jobs_titles_witness:
  "length (job_elements doc_titles) = 3 \<and>
   map has_title (job_elements doc_titles) = [False, True, False] \<and>
   parse_upwork_jobs doc_titles = map parse_job_element (filter has_title (job_elements doc_titles)) \<and>
   list_all (\<lambda>job. jd_title job = Some ''Data entry'') (parse_upwork_jobs doc_titles) \<and>
   length (parse_upwork_jobs doc_titles) = 1"
proof -
  have 1: "length (job_elements doc_titles) = 3 \<and>
           map has_title (job_elements doc_titles) = [False, True, False]"
    by code_simp
  have 2: "map jd_title (map parse_job_element (filter has_title (job_elements doc_titles))) =
           [Some ''Data entry'']"
    by code_simp
  have 3: "parse_upwork_jobs doc_titles =
           map parse_job_element (filter has_title (job_elements doc_titles))"
    using parse_upwork_jobs_titles [of doc_titles] by simp
  have 4: "map jd_title (parse_upwork_jobs doc_titles) = [Some ''Data entry'']"
    using 2 3 by simp
  then have "length (map jd_title (parse_upwork_jobs doc_titles)) = 1" by simp
  then have 5: "length (parse_upwork_jobs doc_titles) = 1" by simp
  from 4 have "list_all (\<lambda>x. x = Some ''Data entry'') (map jd_title (parse_upwork_jobs doc_titles))"
    by simp
  then have 6: "list_all (\<lambda>job. jd_title job = Some ''Data entry'') (parse_upwork_jobs doc_titles)"
    by (simp add: list_all_iff)
  from 1 3 5 6 show ?thesis by simp
qed

section \<open>parse\_html\_file\<close>



section \<open>The fields read by regular expressions\<close>

lemma first_success_Some:
  "first_success f ks = Some r \<Longrightarrow> \<exists>k \<in> set ks. f k = Some r"
  by (induction ks) (auto split: option.splits)

lemma take_run:
  assumes "1 \<le> k" and "k \<le> run_length cls s"
  shows "take k s \<noteq> [] \<and> list_all (in_class cls) (take k s)"
proof -
  have "take k (takeWhile (in_class cls) s @ dropWhile (in_class cls) s) =
        take k (takeWhile (in_class cls) s)"
    using assms(2) by (simp add: run_length_def del: takeWhile_dropWhile_id)
  then have eq: "take k s = take k (takeWhile (in_class cls) s)" by simp
  have "set (take k (takeWhile (in_class cls) s)) \<subseteq> set (takeWhile (in_class cls) s)"
    by (rule set_take_subset)
  then have "list_all (in_class cls) (take k s)"
    unfolding eq by (auto simp: list_all_iff dest: set_takeWhileD)
  moreover have "length (take k s) = k"
    using assms(2) length_takeWhile_le [of "in_class cls" s] by (simp add: run_length_def)
  ultimately show ?thesis using assms(1) by auto
qed

lemma re_match_groups:
  "re_match p s = Some g \<Longrightarrow>
   list_all2 (\<lambda>cls a. a \<noteq> [] \<and> list_all (in_class cls) a) (group_classes p) g"
proof (induction p s arbitrary: g rule: re_match.induct)
  case (1 s)
  then show ?case by simp
next
  case (2 l r s)
  then show ?case by (simp split: if_splits)
next
  case (3 cls r s)
  from first_success_Some [OF "3.prems" [simplified re_match.simps]]
  obtain k where "re_match r (drop k s) = Some g" by blast
  with "3.IH" show ?case by simp
next
  case (4 cls r s)
  from first_success_Some [OF "4.prems" [simplified re_match.simps]]
  obtain k where "re_match r (drop k s) = Some g" by blast
  with "4.IH" show ?case by simp
next
  case (5 cls r s)
  from first_success_Some [OF "5.prems" [simplified re_match.simps]]
  obtain k where k: "k \<in> set (rev [1 ..< Suc (run_length cls s)])"
    and m: "map_option ((#) (take k s)) (re_match r (drop k s)) = Some g" by blast
  from m obtain g' where g': "re_match r (drop k s) = Some g'" "g = take k s # g'" by auto
  from k have "1 \<le> k" "k \<le> run_length cls s" by auto
  then have "take k s \<noteq> [] \<and> list_all (in_class cls) (take k s)" by (rule take_run)
  with "5.IH" [OF g'(1)] g'(2) show ?case by simp
next
  case (6 c r s)
  then show ?case by (auto split: if_splits option.splits)
qed

lemma re_search_groups:
  "re_search p s = Some g \<Longrightarrow>
   list_all2 (\<lambda>cls a. a \<noteq> [] \<and> list_all (in_class cls) a) (group_classes p) g"
  by (induction s) (auto split: option.splits dest: re_match_groups)

lemma hourly_re_groups:
  assumes "re_search hourly_re text = Some g"
  shows "\<exists>A B. g = [A, B] \<and> A \<noteq> [] \<and> B \<noteq> [] \<and> list_all (in_class Amount) A \<and>
               list_all (in_class Amount) B"
  using re_search_groups [OF assms]
  by (auto simp: hourly_re_def list_all2_Cons1)

lemma budget_re_groups:
  assumes "re_search budget_re text = Some g"
  shows "\<exists>C. g = [C] \<and> C \<noteq> [] \<and> list_all (in_class Amount) C"
  using re_search_groups [OF assms]
  by (auto simp: budget_re_def list_all2_Cons1)

lemma first_success_longest:
  "m \<le> n \<Longrightarrow> f n = Some r \<Longrightarrow> first_success f (rev [m ..< Suc n]) = Some r"
  by simp

lemma run_length_append:
  assumes "list_all (in_class cls) a" and "rest = [] \<or> \<not> in_class cls (hd rest)"
  shows "run_length cls (a @ rest) = length a"
proof -
  have "takeWhile (in_class cls) rest = []"
    using assms(2) by (cases rest) auto
  moreover have "takeWhile (in_class cls) (a @ rest) = a @ takeWhile (in_class cls) rest"
    using assms(1) by (intro takeWhile_append2) (simp add: list_all_iff)
  ultimately show ?thesis by (simp add: run_length_def)
qed

lemma re_match_Lit: "re_match (Lit l # r) (l @ rest) = re_match r rest"
  by simp

lemma re_match_Star_run:
  assumes "list_all (in_class cls) w" and "rest = [] \<or> \<not> in_class cls (hd rest)"
    and "re_match r rest = Some g"
  shows "re_match (Star cls # r) (w @ rest) = Some g"
  using assms(3)
  by (simp add: run_length_append [OF assms(1,2)] del: upt_Suc)
    (rule first_success_longest, simp_all)

lemma re_match_Group_Plus_run:
  assumes "a \<noteq> []" and "list_all (in_class cls) a" and "rest = [] \<or> \<not> in_class cls (hd rest)"
    and "re_match r rest = Some g"
  shows "re_match (Group_Plus cls # r) (a @ rest) = Some (a # g)"
proof -
  have "1 \<le> length a" using assms(1) by (cases a) simp_all
  then show ?thesis
    using assms(4)
    by (simp add: run_length_append [OF assms(2,3)] del: upt_Suc)
      (rule first_success_longest, simp_all)
qed

lemma isspace_not_Amount: "isspace c \<Longrightarrow> \<not> in_class Amount c"
  by (auto simp: isspace_def isdigit_def Let_def)

lemma hourly_re_shape:
  assumes "list_all isspace w1" "list_all isspace w2" "list_all isspace w3"
    and "A \<noteq> []" "list_all (in_class Amount) A" "B \<noteq> []" "list_all (in_class Amount) B"
    and "rest = [] \<or> \<not> in_class Amount (hd rest)"
  shows "re_search hourly_re
           (''Hourly:'' @ w1 @ ''$'' @ A @ w2 @ ''-'' @ w3 @ ''$'' @ B @ rest) = Some [A, B]"
proof -
  have sp: "list_all (in_class Space) w1" "list_all (in_class Space) w2"
      "list_all (in_class Space) w3"
    using assms(1-3) by (simp_all add: list_all_iff)
  have ns: "\<not> in_class Space CHR ''$''" "\<not> in_class Space CHR ''-''"
    by (simp_all add: isspace_def)
  have 9: "re_match [Group_Plus Amount] (B @ rest) = Some [B]"
    using re_match_Group_Plus_run [OF assms(6,7,8), of "[]" "[]"] by simp
  have 8: "re_match [Lit ''$'', Group_Plus Amount] (''$'' @ B @ rest) = Some [B]"
    using 9 by (simp only: re_match_Lit)
  have 7: "re_match [Star Space, Lit ''$'', Group_Plus Amount] (w3 @ ''$'' @ B @ rest) = Some [B]"
    using ns by (intro re_match_Star_run sp 8) simp
  have 6: "re_match [Lit ''-'', Star Space, Lit ''$'', Group_Plus Amount]
             (''-'' @ w3 @ ''$'' @ B @ rest) = Some [B]"
    using 7 by (simp only: re_match_Lit)
  have 5: "re_match [Star Space, Lit ''-'', Star Space, Lit ''$'', Group_Plus Amount]
             (w2 @ ''-'' @ w3 @ ''$'' @ B @ rest) = Some [B]"
    using ns by (intro re_match_Star_run sp 6) simp
  have stop: "\<not> in_class Amount (hd (w2 @ ''-'' @ w3 @ ''$'' @ B @ rest))"
  proof (cases w2)
    case Nil
    then show ?thesis by (simp add: isdigit_def)
  next
    case (Cons c cs)
    with assms(2) show ?thesis by (simp add: isspace_not_Amount del: in_class.simps)
  qed
  have 4: "re_match [Group_Plus Amount, Star Space, Lit ''-'', Star Space, Lit ''$'',
                     Group_Plus Amount]
             (A @ w2 @ ''-'' @ w3 @ ''$'' @ B @ rest) = Some [A, B]"
    using stop by (intro re_match_Group_Plus_run assms(4,5) 5) simp
  have 3: "re_match [Lit ''$'', Group_Plus Amount, Star Space, Lit ''-'', Star Space, Lit ''$'',
                     Group_Plus Amount]
             (''$'' @ A @ w2 @ ''-'' @ w3 @ ''$'' @ B @ rest) = Some [A, B]"
    using 4 by (simp only: re_match_Lit)
  have 2: "re_match [Star Space, Lit ''$'', Group_Plus Amount, Star Space, Lit ''-'', Star Space,
                     Lit ''$'', Group_Plus Amount]
             (w1 @ ''$'' @ A @ w2 @ ''-'' @ w3 @ ''$'' @ B @ rest) = Some [A, B]"
    using ns by (intro re_match_Star_run sp 3) simp
  have 1: "re_match hourly_re (''Hourly:'' @ w1 @ ''$'' @ A @ w2 @ ''-'' @ w3 @ ''$'' @ B @ rest) =
           Some [A, B]"
    unfolding hourly_re_def using 2 by (simp only: re_match_Lit)
  then show ?thesis by simp
qed

lemma budget_re_shape:
  assumes "list_all isspace w" and "C \<noteq> []" "list_all (in_class Amount) C"
    and "rest = [] \<or> \<not> in_class Amount (hd rest)"
  shows "re_search budget_re (''Est. budget:'' @ w @ ''$'' @ C @ rest) = Some [C]"
proof -
  have sp: "list_all (in_class Space) w"
    using assms(1) by (simp_all add: list_all_iff)
  have ns: "\<not> in_class Space CHR ''$''"
    by (simp_all add: isspace_def)
  have 4: "re_match [Group_Plus Amount] (C @ rest) = Some [C]"
    using re_match_Group_Plus_run [OF assms(2,3,4), of "[]" "[]"] by simp
  have 3: "re_match [Lit ''$'', Group_Plus Amount] (''$'' @ C @ rest) = Some [C]"
    using 4 by (simp only: re_match_Lit)
  have 2: "re_match [Star Space, Lit ''$'', Group_Plus Amount] (w @ ''$'' @ C @ rest) = Some [C]"
    using ns by (intro re_match_Star_run sp 3) simp
  have 1: "re_match budget_re (''Est. budget:'' @ w @ ''$'' @ C @ rest) = Some [C]"
    unfolding budget_re_def using 2 by (simp only: re_match_Lit)
  then show ?thesis by simp
qed

lemma job_info_loop_snoc:
  "job_info_loop job_info (items @ [item]) =
   job_info_item (job_info_loop job_info items) (get_text item)"
  by (induction items arbitrary: job_info) simp_all

text \<open>
  Claim C5, as amended. When the loop over the job-info items has processed an item:
  if the item's text contains \<open>Fixed price\<close>, the type is \<open>Fixed price\<close>; if it does
  not, contains \<open>Hourly:\<close> and the hourly pattern matches with groups \<open>A\<close> and \<open>B\<close>
  (non-empty strings of digits, commas and dots), the type is \<open>Hourly\<close>,
  \<open>hourly_rate_min\<close> is \<open>A\<close> and \<open>hourly_rate_max\<close> is \<open>B\<close>; if it contains neither
  \<open>Fixed price\<close> nor \<open>Hourly:\<close>, contains \<open>Est. budget:\<close> and the budget pattern
  matches with group \<open>C\<close>, the budget is \<open>C\<close>. The patterns match, with these groups,
  a text of the shape \<open>Hourly: $A - $B\<close> or \<open>Est. budget: $C\<close>: the keyword, optional
  whitespace around the dollar signs and the dash, \<open>A\<close>, \<open>B\<close> and \<open>C\<close> non-empty
  strings of digits, commas and dots, the last of them followed by no such character.
\<close>

theorem job_info_item_regex_fields:
  "(sublist ''Fixed price'' (get_text item) \<longrightarrow>
      ji_type (job_info_loop job_info (items @ [item])) = Some ''Fixed price'') \<and>
   (\<forall>g. \<not> sublist ''Fixed price'' (get_text item) \<and> sublist ''Hourly:'' (get_text item) \<and>
        re_search hourly_re (get_text item) = Some g \<longrightarrow>
        (\<exists>A B. g = [A, B] \<and> A \<noteq> [] \<and> B \<noteq> [] \<and>
               list_all (in_class Amount) A \<and> list_all (in_class Amount) B \<and>
               ji_type (job_info_loop job_info (items @ [item])) = Some ''Hourly'' \<and>
               ji_hourly_rate_min (job_info_loop job_info (items @ [item])) = Some A \<and>
               ji_hourly_rate_max (job_info_loop job_info (items @ [item])) = Some B)) \<and>
   (\<forall>g. \<not> sublist ''Fixed price'' (get_text item) \<and> \<not> sublist ''Hourly:'' (get_text item) \<and>
        sublist ''Est. budget:'' (get_text item) \<and>
        re_search budget_re (get_text item) = Some g \<longrightarrow>
        (\<exists>C. g = [C] \<and> C \<noteq> [] \<and> list_all (in_class Amount) C \<and>
             ji_budget (job_info_loop job_info (items @ [item])) = Some C)) \<and>
   (\<forall>w1 A w2 w3 B rest.
        get_text item = ''Hourly:'' @ w1 @ ''$'' @ A @ w2 @ ''-'' @ w3 @ ''$'' @ B @ rest \<and>
        list_all isspace w1 \<and> list_all isspace w2 \<and> list_all isspace w3 \<and>
        A \<noteq> [] \<and> list_all (in_class Amount) A \<and> B \<noteq> [] \<and> list_all (in_class Amount) B \<and>
        (rest = [] \<or> \<not> in_class Amount (hd rest)) \<and>
        \<not> sublist ''Fixed price'' (get_text item) \<longrightarrow>
        ji_type (job_info_loop job_info (items @ [item])) = Some ''Hourly'' \<and>
        ji_hourly_rate_min (job_info_loop job_info (items @ [item])) = Some A \<and>
        ji_hourly_rate_max (job_info_loop job_info (items @ [item])) = Some B) \<and>
   (\<forall>w C rest.
        get_text item = ''Est. budget:'' @ w @ ''$'' @ C @ rest \<and>
        list_all isspace w \<and> C \<noteq> [] \<and> list_all (in_class Amount) C \<and>
        (rest = [] \<or> \<not> in_class Amount (hd rest)) \<and>
        \<not> sublist ''Fixed price'' (get_text item) \<and> \<not> sublist ''Hourly:'' (get_text item) \<longrightarrow>
        ji_budget (job_info_loop job_info (items @ [item])) = Some C)"
proof -
  let ?text = "get_text item" and ?r = "job_info_loop job_info (items @ [item])"
  have r: "?r = job_info_item (job_info_loop job_info items) ?text"
    by (rule job_info_loop_snoc)
  have fixed: "ji_type ?r = Some ''Fixed price''" if "sublist ''Fixed price'' ?text"
    using that by (simp add: r job_info_item_def)
  have hourly: "ji_type ?r = Some ''Hourly'' \<and> ji_hourly_rate_min ?r = Some (group g 1) \<and>
      ji_hourly_rate_max ?r = Some (group g 2)"
    if "\<not> sublist ''Fixed price'' ?text" "sublist ''Hourly:'' ?text"
      "re_search hourly_re ?text = Some g" for g
    using that by (simp add: r job_info_item_def)
  have budget: "ji_budget ?r = Some (group g 1)"
    if "\<not> sublist ''Fixed price'' ?text" "\<not> sublist ''Hourly:'' ?text"
      "sublist ''Est. budget:'' ?text" "re_search budget_re ?text = Some g" for g
    using that by (simp add: r job_info_item_def)
  have c2: "\<exists>A B. g = [A, B] \<and> A \<noteq> [] \<and> B \<noteq> [] \<and>
               list_all (in_class Amount) A \<and> list_all (in_class Amount) B \<and>
               ji_type ?r = Some ''Hourly'' \<and> ji_hourly_rate_min ?r = Some A \<and>
               ji_hourly_rate_max ?r = Some B"
    if "\<not> sublist ''Fixed price'' ?text \<and> sublist ''Hourly:'' ?text \<and>
        re_search hourly_re ?text = Some g" for g
    using that hourly [of g] hourly_re_groups [of ?text g] by (auto simp: group_def)
  have c3: "\<exists>C. g = [C] \<and> C \<noteq> [] \<and> list_all (in_class Amount) C \<and> ji_budget ?r = Some C"
    if "\<not> sublist ''Fixed price'' ?text \<and> \<not> sublist ''Hourly:'' ?text \<and>
        sublist ''Est. budget:'' ?text \<and> re_search budget_re ?text = Some g" for g
    using that budget [of g] budget_re_groups [of ?text g] by (auto simp: group_def)
  have c4: "ji_type ?r = Some ''Hourly'' \<and> ji_hourly_rate_min ?r = Some A \<and>
        ji_hourly_rate_max ?r = Some B"
    if t: "?text = ''Hourly:'' @ w1 @ ''$'' @ A @ w2 @ ''-'' @ w3 @ ''$'' @ B @ rest"
      and w: "list_all isspace w1" "list_all isspace w2" "list_all isspace w3"
      and ab: "A \<noteq> []" "list_all (in_class Amount) A" "B \<noteq> []" "list_all (in_class Amount) B"
      and rest: "rest = [] \<or> \<not> in_class Amount (hd rest)"
      and nf: "\<not> sublist ''Fixed price'' ?text" for w1 A w2 w3 B rest
  proof -
    have "re_search hourly_re ?text = Some [A, B]"
      unfolding t by (rule hourly_re_shape [OF w ab rest])
    moreover have "sublist ''Hourly:'' ?text"
      unfolding t by (rule sublist_append_rightI)
    ultimately show ?thesis using hourly [of "[A, B]"] nf by (simp add: group_def)
  qed
  have c5: "ji_budget ?r = Some C"
    if t: "?text = ''Est. budget:'' @ w @ ''$'' @ C @ rest"
      and w: "list_all isspace w"
      and c: "C \<noteq> []" "list_all (in_class Amount) C"
      and rest: "rest = [] \<or> \<not> in_class Amount (hd rest)"
      and nf: "\<not> sublist ''Fixed price'' ?text" "\<not> sublist ''Hourly:'' ?text" for w C rest
  proof -
    have "re_search budget_re ?text = Some [C]"
      unfolding t by (rule budget_re_shape [OF w c rest])
    moreover have "sublist ''Est. budget:'' ?text"
      unfolding t by (rule sublist_append_rightI)
    ultimately show ?thesis using budget [of "[C]"] nf by (simp add: group_def)
  qed
  from fixed c2 c3 c4 c5 show ?thesis by blast
qed

text \<open>
  The items \<open>Fixed price\<close>, \<open>Hourly: $10.00 - $20.00\<close> and \<open>Est. budget: $500.00\<close>.
\<close>

theorem job_info_item_regex_fields_witness:
  "ji_type (job_info_loop empty_job_info ([] @ [item_fixed])) = Some ''Fixed price'' \<and>
   ji_type (job_info_loop empty_job_info ([] @ [item_hourly])) = Some ''Hourly'' \<and>
   ji_hourly_rate_min (job_info_loop empty_job_info ([] @ [item_hourly])) = Some ''10.00'' \<and>
   ji_hourly_rate_max (job_info_loop empty_job_info ([] @ [item_hourly])) = Some ''20.00'' \<and>
   ji_budget (job_info_loop empty_job_info ([] @ [item_budget])) = Some ''500.00''"
proof -
  have f: "sublist ''Fixed price'' (get_text item_fixed)" by code_simp
  have h: "get_text item_hourly =
             ''Hourly:'' @ '' '' @ ''$'' @ ''10.00'' @ '' '' @ ''-'' @ '' '' @ ''$'' @ ''20.00'' @ [] \<and>
           list_all isspace '' '' \<and> list_all isspace '' '' \<and> list_all isspace '' '' \<and>
           ''10.00'' \<noteq> [] \<and> list_all (in_class Amount) ''10.00'' \<and>
           ''20.00'' \<noteq> [] \<and> list_all (in_class Amount) ''20.00'' \<and>
           (([] :: string) = [] \<or> \<not> in_class Amount (hd [])) \<and>
           \<not> sublist ''Fixed price'' (get_text item_hourly)"
    by code_simp
  have b: "get_text item_budget = ''Est. budget:'' @ '' '' @ ''$'' @ ''500.00'' @ [] \<and>
           list_all isspace '' '' \<and> ''500.00'' \<noteq> [] \<and> list_all (in_class Amount) ''500.00'' \<and>
           (([] :: string) = [] \<or> \<not> in_class Amount (hd [])) \<and>
           \<not> sublist ''Fixed price'' (get_text item_budget) \<and>
           \<not> sublist ''Hourly:'' (get_text item_budget)"
    by code_simp
  have 1: "ji_type (job_info_loop empty_job_info ([] @ [item_fixed])) = Some ''Fixed price''"
    using job_info_item_regex_fields [of item_fixed empty_job_info "[]"] f by blast
  have 2: "ji_type (job_info_loop empty_job_info ([] @ [item_hourly])) = Some ''Hourly'' \<and>
      ji_hourly_rate_min (job_info_loop empty_job_info ([] @ [item_hourly])) = Some ''10.00'' \<and>
      ji_hourly_rate_max (job_info_loop empty_job_info ([] @ [item_hourly])) = Some ''20.00''"
    using job_info_item_regex_fields [of item_hourly empty_job_info "[]"] h by blast
  have 3: "ji_budget (job_info_loop empty_job_info ([] @ [item_budget])) = Some ''500.00''"
    using job_info_item_regex_fields [of item_budget empty_job_info "[]"] b by blast
  from 1 2 3 show ?thesis by simp
qed

text \<open>
  Claim C5 as stated gives the hourly and the budget fields to every item that contains
  the keyword and matches the pattern. The branches are an \<open>if\<close>/\<open>elif\<close> chain with
  \<open>Fixed price\<close> first: a job tile whose two items contain \<open>Fixed price\<close> before a
  matching hourly range and a matching budget gets the type \<open>Fixed price\<close> and neither
  rates nor budget.
\<close>

theorem fixed_price_hides_hourly_and_budget:
  "map get_text (select (hd (job_elements doc_fixed_hourly))
                   [[Type ''ul'', Attr ''data-test'' ''JobInfo''], [Type ''li'']]) =
     [item_fixed_hourly, item_fixed_budget] \<and>
   sublist ''Hourly:'' item_fixed_hourly \<and>
   re_search hourly_re item_fixed_hourly = Some [''10'', ''20''] \<and>
   sublist ''Est. budget:'' item_fixed_budget \<and>
   re_search budget_re item_fixed_budget = Some [''500''] \<and>
   map jd_job_info (parse_upwork_jobs doc_fixed_hourly) =
     [Some (empty_job_info\<lparr>ji_type := Some ''Fixed price''\<rparr>)]"
  by code_simp

end
